theory Spec2Isabelle
  imports Complex_Main
begin

section \<open>The dashboard's API service (apiService.js)\<close>

subsection \<open>JavaScript values, thrown values and settled promises\<close>

text \<open>
  A JavaScript value as the service handles it: what a JSON response body can hold, plus
  \<open>undefined\<close>. Numbers are idealised as reals (a JSON body cannot carry NaN or the
  infinities). An object is its list of properties in source order.
\<close>

datatype jsval =
    JUndefined
  | JNull
  | JBool bool
  | JNum real
  | JStr string
  | JArr "jsval list"
  | JObj "(string \<times> jsval) list"

text \<open>
  What a \<open>try\<close> block of the service can catch: the rejection of an axios request (with
  the error value axios supplies), or the TypeError of reading a property of
  \<open>undefined\<close> or \<open>null\<close>.
\<close>

datatype js_exn = TypeError | RequestError jsval

text \<open>The outcome of awaiting an \<open>async\<close> function or a request.\<close>

datatype 'a settled = Fulfilled 'a | Rejected js_exn

text \<open>The three axios instances the module creates.\<close>

datatype axios_instance = Api | RealTimeApi | DashboardApi

text \<open>
  Everything outside the module that its functions read: the outcome of a GET request
  on an instance and a path, the values that successive calls of \<open>Math.random()\<close> and
  \<open>Date.now()\<close> return, and the built-in \<open>Date.prototype.toISOString\<close> on a time in
  milliseconds. Output on the console is not modelled.
\<close>

record runtime =
  http_get :: "axios_instance \<Rightarrow> string \<Rightarrow> jsval settled"
  math_random :: "nat \<Rightarrow> real"
  date_now :: "nat \<Rightarrow> int"
  to_iso_string :: "int \<Rightarrow> string"

text \<open>
  Reading a property \<open>v.k\<close>: a TypeError on \<open>undefined\<close> and \<open>null\<close>, the property of
  an object (the last one of that name, \<open>undefined\<close> when there is none), and
  \<open>undefined\<close> on every other value (the service reads only the names \<open>data\<close>,
  \<open>timestamp\<close> and the fields of its own mock objects).
\<close>

fun get_prop :: "jsval \<Rightarrow> string \<Rightarrow> js_exn + jsval" where
  "get_prop JUndefined k = Inl TypeError"
| "get_prop JNull k = Inl TypeError"
| "get_prop (JObj kvs) k = Inr (case map_of (rev kvs) k of None \<Rightarrow> JUndefined | Some v \<Rightarrow> v)"
| "get_prop v k = Inr JUndefined"

text \<open>JavaScript's truthiness, as the conditions \<open>x && ...\<close> and \<open>!x\<close> use it.\<close>

fun truthy :: "jsval \<Rightarrow> bool" where
  "truthy JUndefined = False"
| "truthy JNull = False"
| "truthy (JBool b) = b"
| "truthy (JNum x) = (x \<noteq> 0)"
| "truthy (JStr s) = (s \<noteq> [])"
| "truthy (JArr xs) = True"
| "truthy (JObj kvs) = True"

text \<open>
  \<open>a !== b\<close>. Primitive values are compared by type and value. Arrays and objects are
  compared by reference, and every response is parsed into fresh ones, so an array or
  object read from one response is never identical to a value read from another.
\<close>

fun strict_not_equal :: "jsval \<Rightarrow> jsval \<Rightarrow> bool" where
  "strict_not_equal (JArr xs) b = True"
| "strict_not_equal (JObj kvs) b = True"
| "strict_not_equal a b = (a \<noteq> b)"

text \<open>The decimal digits of a number, as a template literal \<open>`${n}`\<close> prints it.\<close>

fun string_of_nat :: "nat \<Rightarrow> string" where
  "string_of_nat n =
     (if n < 10 then [char_of (48 + n)]
      else string_of_nat (n div 10) @ [char_of (48 + n mod 10)])"

declare string_of_nat.simps [simp del]

subsection \<open>Configuration and module state\<close>

text \<open>
  \<open>const USE_MOCK_DATA = true\<close>. The functions below take the flag as an argument, so
  that both branches of \<open>if (USE_MOCK_DATA)\<close> are part of the model.
\<close>

definition USE_MOCK_DATA :: bool where
  "USE_MOCK_DATA = True"

text \<open>
  \<open>let lastUpdateTimestamp = null\<close>: the one mutable variable of the module. The
  functions that touch it take its value and return the new one.
\<close>

definition lastUpdateTimestamp_init :: jsval where
  "lastUpdateTimestamp_init = JNull"

subsection \<open>The body of a \<open>try\<close> block\<close>

text \<open>
  \<open>const response = await instance.get(path); ... response.data\<close>: the request's
  rejection or the TypeError of the property read (\<open>Inl\<close>), or the data.
\<close>

definition response_data :: "jsval settled \<Rightarrow> js_exn + jsval" where
  "response_data r =
     (case r of Rejected e \<Rightarrow> Inl e | Fulfilled response \<Rightarrow> get_prop response ''data'')"

subsection \<open>Dashboard endpoints\<close>

definition ab_testing_mock :: jsval where
  "ab_testing_mock =
     JObj [
       (''variants'', JArr [
          JObj [(''name'', JStr ''SMS Reminders''),
                (''sample_size'', JNum 1250),
                (''show_up_rate'', JNum (85 / 100)),
                (''no_show_rate'', JNum (15 / 100)),
                (''p_value'', JNum (32 / 1000)),
                (''result'', JStr ''Winner'')],
          JObj [(''name'', JStr ''Email Reminders''),
                (''sample_size'', JNum 1250),
                (''show_up_rate'', JNum (78 / 100)),
                (''no_show_rate'', JNum (22 / 100)),
                (''p_value'', JNum (32 / 1000)),
                (''result'', JStr ''Control'')]]),
       (''chart_data'', JArr [
          JObj [(''variant'', JStr ''SMS Reminders''), (''show_up_rate'', JNum (85 / 100))],
          JObj [(''variant'', JStr ''Email Reminders''), (''show_up_rate'', JNum (78 / 100))]])]"

definition getABTestingResults :: "bool \<Rightarrow> runtime \<Rightarrow> jsval settled" where
  "getABTestingResults use_mock rt =
     (if use_mock then Fulfilled ab_testing_mock
      else case response_data (http_get rt DashboardApi ''/ab-testing/results'') of
             Inr d \<Rightarrow> Fulfilled d
           | Inl e \<Rightarrow> Fulfilled JNull)"

text \<open>
  \<open>mockData.abTestingData\<close> and \<open>getABTestingData\<close>, one of the original functions:
  they have no \<open>try\<close>, so a failure of the request rejects the promise.
\<close>

definition abTestingData_mock :: jsval where
  "abTestingData_mock =
     JObj [
       (''groupA'', JObj [(''satisfaction'', JNum (43 / 10)), (''waitTime'', JNum (162 / 10))]),
       (''groupB'', JObj [(''satisfaction'', JNum (45 / 10)), (''waitTime'', JNum (148 / 10))]),
       (''tTestResults'', JObj [
          (''pValue'', JNum (32 / 1000)),
          (''significant'', JBool True),
          (''recommendation'', JStr (''Group B's approach shows statistically significant '' @
             ''improvement in patient satisfaction and reduced wait times. We recommend '' @
             ''implementing this approach across all departments.''))])]"

definition getABTestingData :: "bool \<Rightarrow> runtime \<Rightarrow> jsval settled" where
  "getABTestingData use_mock rt =
     (if use_mock then Fulfilled abTestingData_mock
      else case response_data (http_get rt Api ''/abtesting'') of
             Inr d \<Rightarrow> Fulfilled d
           | Inl e \<Rightarrow> Rejected e)"

text \<open>
  One element of the mocked predictions. \<open>k\<close> counts the calls of \<open>Math.random()\<close>
  made so far; the properties are evaluated in source order, and the second test of the
  conditional draws a number only when the first fails.
\<close>

definition predicted_appointment :: "(nat \<Rightarrow> real) \<Rightarrow> nat \<Rightarrow> nat \<Rightarrow> jsval \<times> nat" where
  "predicted_appointment rnd k i =
     (let p = rnd k;
          (risk, k') =
            (if rnd (k + 1) > 7 / 10 then (''High'', k + 2)
             else if rnd (k + 2) > 4 / 10 then (''Medium'', k + 3)
             else (''Low'', k + 3))
      in (JObj [(''id'', JNum (real (1000 + i))),
                (''patient_name'', JStr (''Patient '' @ string_of_nat (7000 + i))),
                (''appointment_time'', JStr (''2023-06-'' @ string_of_nat (15 + i) @ '' 10:00'')),
                (''no_show_probability'', JNum p),
                (''risk_level'', JStr risk)], k'))"

fun predicted_appointments :: "(nat \<Rightarrow> real) \<Rightarrow> nat \<Rightarrow> nat list \<Rightarrow> jsval list" where
  "predicted_appointments rnd k [] = []"
| "predicted_appointments rnd k (i # is) =
     (case predicted_appointment rnd k i of
        (v, k') \<Rightarrow> v # predicted_appointments rnd k' is)"

definition getPredictedAppointments :: "bool \<Rightarrow> runtime \<Rightarrow> jsval settled" where
  "getPredictedAppointments use_mock rt =
     (if use_mock then Fulfilled (JArr (predicted_appointments (math_random rt) 0 [0..<10]))
      else case response_data (http_get rt DashboardApi ''/appointments/predicted'') of
             Inr d \<Rightarrow> Fulfilled d
           | Inl e \<Rightarrow> Fulfilled (JArr []))"

text \<open>One element of the mocked alerts; the \<open>i\<close>-th element makes the \<open>i\<close>-th call of \<open>Date.now()\<close>.\<close>

definition recent_alert :: "runtime \<Rightarrow> nat \<Rightarrow> jsval" where
  "recent_alert rt i =
     JObj [(''id'', JNum (real (2000 + i))),
           (''patient_name'', JStr (''Patient '' @ string_of_nat (8000 + i))),
           (''appointment_time'', JStr (''2023-06-'' @ string_of_nat (15 + i) @ '' 14:30'')),
           (''risk_level'', JStr ''High''),
           (''created_at'', JStr (to_iso_string rt (date_now rt i - int i * 15 * 60000)))]"

definition getRecentAlerts :: "bool \<Rightarrow> runtime \<Rightarrow> jsval settled" where
  "getRecentAlerts use_mock rt =
     (if use_mock then Fulfilled (JArr (map (recent_alert rt) [0..<3]))
      else case response_data (http_get rt DashboardApi ''/alerts/recent'') of
             Inr d \<Rightarrow> Fulfilled d
           | Inl e \<Rightarrow> Fulfilled (JArr []))"

subsection \<open>Real-time endpoints\<close>

text \<open>
  \<open>getLastUpdated\<close> and \<open>checkForUpdates\<close> read \<open>response.data.timestamp\<close> inside
  their \<open>try\<close> block and share the variable \<open>lastUpdateTimestamp\<close>: each takes its
  value and returns, with the settled promise, the value it leaves. Every assignment
  comes after the last expression that can throw, so the \<open>catch\<close> branch leaves the
  variable as it was.
\<close>

definition getLastUpdated :: "runtime \<Rightarrow> jsval \<Rightarrow> jsval settled \<times> jsval" where
  "getLastUpdated rt lastUpdateTimestamp =
     (case response_data (http_get rt RealTimeApi ''/last_updated'') of
        Inl e \<Rightarrow>
          (Fulfilled (JObj [(''timestamp'', JNull), (''formatted'', JStr ''Unknown'')]),
           lastUpdateTimestamp)
      | Inr d \<Rightarrow>
          (case get_prop d ''timestamp'' of
             Inl e \<Rightarrow>
               (Fulfilled (JObj [(''timestamp'', JNull), (''formatted'', JStr ''Unknown'')]),
                lastUpdateTimestamp)
           | Inr ts \<Rightarrow> (Fulfilled d, ts)))"

definition checkForUpdates :: "runtime \<Rightarrow> jsval \<Rightarrow> bool settled \<times> jsval" where
  "checkForUpdates rt lastUpdateTimestamp =
     (case response_data (http_get rt RealTimeApi ''/last_updated'') of
        Inl e \<Rightarrow> (Fulfilled False, lastUpdateTimestamp)
      | Inr d \<Rightarrow>
          (case get_prop d ''timestamp'' of
             Inl e \<Rightarrow> (Fulfilled False, lastUpdateTimestamp)
           | Inr newTimestamp \<Rightarrow>
               if truthy lastUpdateTimestamp \<and> strict_not_equal newTimestamp lastUpdateTimestamp
               then (Fulfilled True, newTimestamp)
               else if \<not> truthy lastUpdateTimestamp
               then (Fulfilled False, newTimestamp)
               else (Fulfilled False, lastUpdateTimestamp)))"

definition fetchAppointments :: "runtime \<Rightarrow> jsval settled" where
  "fetchAppointments rt =
     (case response_data (http_get rt RealTimeApi ''/appointments'') of
        Inr d \<Rightarrow> Fulfilled d
      | Inl e \<Rightarrow> Fulfilled (JArr []))"

definition fetchFeedback :: "runtime \<Rightarrow> jsval settled" where
  "fetchFeedback rt =
     (case response_data (http_get rt RealTimeApi ''/feedback'') of
        Inr d \<Rightarrow> Fulfilled d
      | Inl e \<Rightarrow> Fulfilled (JArr []))"

definition fetchService :: "runtime \<Rightarrow> jsval settled" where
  "fetchService rt =
     (case response_data (http_get rt RealTimeApi ''/service'') of
        Inr d \<Rightarrow> Fulfilled d
      | Inl e \<Rightarrow> Fulfilled (JArr []))"

definition fetchStaff :: "runtime \<Rightarrow> jsval settled" where
  "fetchStaff rt =
     (case response_data (http_get rt RealTimeApi ''/staff'') of
        Inr d \<Rightarrow> Fulfilled d
      | Inl e \<Rightarrow> Fulfilled (JArr []))"

subsection \<open>The A/B testing page's reading of the result (ABTesting.jsx)\<close>

text \<open>\<open>abData.variants\<close>, the elements of the array (none when it is not one).\<close>

definition variants :: "jsval settled \<Rightarrow> jsval list" where
  "variants r =
     (case r of
        Fulfilled abData \<Rightarrow>
          (case get_prop abData ''variants'' of Inr (JArr vs) \<Rightarrow> vs | _ \<Rightarrow> [])
      | Rejected e \<Rightarrow> [])"

definition read_field :: "string \<Rightarrow> jsval \<Rightarrow> jsval" where
  "read_field k v = (case get_prop v k of Inr x \<Rightarrow> x | Inl e \<Rightarrow> JUndefined)"

definition num_field :: "string \<Rightarrow> jsval \<Rightarrow> real option" where
  "num_field k v = (case read_field k v of JNum x \<Rightarrow> Some x | _ \<Rightarrow> None)"

definition is_winner :: "jsval \<Rightarrow> bool" where
  "is_winner v = (read_field ''result'' v = JStr ''Winner'')"

text \<open>
  The sum of a variant's two rates, and whether one variant's show-up rate is strictly
  higher than another's (both only where the fields are numbers).
\<close>

definition rate_sum :: "jsval \<Rightarrow> real option" where
  "rate_sum v =
     (case (num_field ''show_up_rate'' v, num_field ''no_show_rate'' v) of
        (Some s, Some n) \<Rightarrow> Some (s + n)
      | _ \<Rightarrow> None)"

definition higher_show_up_rate :: "jsval \<Rightarrow> jsval \<Rightarrow> bool" where
  "higher_show_up_rate w v =
     (case (num_field ''show_up_rate'' w, num_field ''show_up_rate'' v) of
        (Some a, Some b) \<Rightarrow> b < a
      | _ \<Rightarrow> False)"

text \<open>\<open>abData.variants.find(v => v.result === 'Winner')?.name\<close>\<close>

definition winner_name :: "jsval settled \<Rightarrow> jsval" where
  "winner_name r =
     (case find is_winner (variants r) of None \<Rightarrow> JUndefined | Some v \<Rightarrow> read_field ''name'' v)"

text \<open>A runtime whose every request gives the same outcome; the other parts are fixed.\<close>

definition runtime_of :: "jsval settled \<Rightarrow> runtime" where
  "runtime_of r =
     \<lparr>http_get = (\<lambda>inst path. r), math_random = (\<lambda>k. 1 / 2), date_now = (\<lambda>k. 0),
      to_iso_string = (\<lambda>t. ''1970-01-01T00:00:00.000Z'')\<rparr>"

text \<open>The response of the server to \<open>GET /last_updated\<close> with a given timestamp.\<close>

definition last_updated_response :: "jsval \<Rightarrow> jsval settled" where
  "last_updated_response ts =
     Fulfilled (JObj [(''data'', JObj [(''timestamp'', ts), (''formatted'', JStr ''now'')])])"

section \<open>The statistical comparison of one metric (docs/ab_testing.md)\<close>

subsection \<open>Floating-point values\<close>

text \<open>
  A value of numpy's \<open>float64\<close>: a finite number or one of the three special values.
  Finite arithmetic is idealised as exact arithmetic on the reals (no rounding, no
  overflow); the special values follow IEEE 754, which numpy applies without raising
  (a division by zero gives an infinity or NaN and a warning). Zero has no sign here:
  every divisor of the program is a count or a square root, so a zero divisor is \<open>+0\<close>.

  In float64 a sum, a mean or a variance is rounded, and very large or very small
  observations overflow or underflow, so whether a computed variance is zero can differ
  from the exact one (three observations \<open>0.1\<close> have a computed variance that is not
  zero). The statements below that depend on a variance being zero, or on a field being
  finite, are therefore made for samples of \<open>bounded_integers\<close>: whole numbers of
  magnitude at most \<open>10\<^sup>6\<close>, at most \<open>10\<^sup>6\<close> of them (minutes, scores, 0/1
  indicators). On such a sample every partial sum is an integer below \<open>2\<^sup>5\<^sup>3\<close> and
  exact, the mean of a constant sample is that constant, a sample that is not constant
  has a deviation of at least a half, and nothing overflows or underflows.
\<close>

datatype fval = Fin real | PInf | NInf | NaN

fun fneg :: "fval \<Rightarrow> fval" where
  "fneg (Fin a) = Fin (- a)"
| "fneg PInf = NInf"
| "fneg NInf = PInf"
| "fneg NaN = NaN"

fun fadd :: "fval \<Rightarrow> fval \<Rightarrow> fval" where
  "fadd NaN y = NaN"
| "fadd x NaN = NaN"
| "fadd (Fin a) (Fin b) = Fin (a + b)"
| "fadd PInf NInf = NaN"
| "fadd NInf PInf = NaN"
| "fadd PInf y = PInf"
| "fadd x PInf = PInf"
| "fadd NInf y = NInf"
| "fadd x NInf = NInf"

definition fsub :: "fval \<Rightarrow> fval \<Rightarrow> fval" where
  "fsub x y = fadd x (fneg y)"

fun fmul :: "fval \<Rightarrow> fval \<Rightarrow> fval" where
  "fmul NaN y = NaN"
| "fmul x NaN = NaN"
| "fmul (Fin a) (Fin b) = Fin (a * b)"
| "fmul (Fin a) PInf = (if a = 0 then NaN else if 0 < a then PInf else NInf)"
| "fmul (Fin a) NInf = (if a = 0 then NaN else if 0 < a then NInf else PInf)"
| "fmul PInf (Fin b) = (if b = 0 then NaN else if 0 < b then PInf else NInf)"
| "fmul NInf (Fin b) = (if b = 0 then NaN else if 0 < b then NInf else PInf)"
| "fmul PInf PInf = PInf"
| "fmul PInf NInf = NInf"
| "fmul NInf PInf = NInf"
| "fmul NInf NInf = PInf"

fun fdiv :: "fval \<Rightarrow> fval \<Rightarrow> fval" where
  "fdiv NaN y = NaN"
| "fdiv x NaN = NaN"
| "fdiv (Fin a) (Fin b) =
     (if b = 0 then (if a = 0 then NaN else if 0 < a then PInf else NInf) else Fin (a / b))"
| "fdiv (Fin a) PInf = Fin 0"
| "fdiv (Fin a) NInf = Fin 0"
| "fdiv PInf (Fin b) = (if 0 \<le> b then PInf else NInf)"
| "fdiv NInf (Fin b) = (if 0 \<le> b then NInf else PInf)"
| "fdiv PInf PInf = NaN"
| "fdiv PInf NInf = NaN"
| "fdiv NInf PInf = NaN"
| "fdiv NInf NInf = NaN"

fun fsqrt :: "fval \<Rightarrow> fval" where
  "fsqrt (Fin a) = (if a < 0 then NaN else Fin (sqrt a))"
| "fsqrt PInf = PInf"
| "fsqrt NInf = NaN"
| "fsqrt NaN = NaN"

text \<open>\<open>x < y\<close>: false whenever an operand is NaN.\<close>

fun flt :: "fval \<Rightarrow> fval \<Rightarrow> bool" where
  "flt NaN y = False"
| "flt x NaN = False"
| "flt (Fin a) (Fin b) = (a < b)"
| "flt x NInf = False"
| "flt PInf y = False"
| "flt NInf y = True"
| "flt x PInf = True"

fun is_finite :: "fval \<Rightarrow> bool" where
  "is_finite (Fin a) = True"
| "is_finite x = False"

subsection \<open>The numpy and scipy functions the analysis calls\<close>

text \<open>
  \<open>np.mean\<close>: the sum over the count; NaN on an empty sample (\<open>0/0\<close>). A sample is a
  list of finite observations.
\<close>

definition np_mean :: "real list \<Rightarrow> fval" where
  "np_mean xs = fdiv (Fin (sum_list xs)) (Fin (real (length xs)))"

text \<open>
  \<open>np.var(xs, ddof)\<close>: the sum of the squared deviations from the mean, over
  \<open>max(n - ddof, 0)\<close>. \<open>np.std\<close> is its square root with \<open>ddof = 0\<close>.
\<close>

definition np_var :: "nat \<Rightarrow> real list \<Rightarrow> fval" where
  "np_var ddof xs =
     (case np_mean xs of
        Fin m \<Rightarrow> fdiv (Fin (sum_list (map (\<lambda>x. (x - m) * (x - m)) xs)))
                      (Fin (real (length xs - ddof)))
      | _ \<Rightarrow> NaN)"

definition np_std :: "real list \<Rightarrow> fval" where
  "np_std xs = fsqrt (np_var 0 xs)"

text \<open>
  \<open>scipy.stats.ttest_ind(a, b)\<close> with its defaults (\<open>equal_var=True\<close>, two-sided), after
  the library's documentation and source: the statistic divides the difference of the
  means by the standard error built from the pooled variance of the two samples, with
  \<open>n1 + n2 - 2\<close> degrees of freedom. An empty sample gives NaN. The variance of a
  sample of one observation (\<open>0/0\<close> with \<open>ddof = 1\<close>) is replaced by zero before the
  variances are pooled, so one observation against two or more still gives a statistic;
  one observation in each sample leaves no degree of freedom and gives \<open>0/0\<close>.
\<close>

definition ttest_ind_df :: "real list \<Rightarrow> real list \<Rightarrow> real" where
  "ttest_ind_df a b = real (length a) + real (length b) - 2"

definition ttest_ind_statistic :: "real list \<Rightarrow> real list \<Rightarrow> fval" where
  "ttest_ind_statistic a b =
     (if a = [] \<or> b = [] then NaN
      else
        let n1 = real (length a); n2 = real (length b);
            v1 = (if length a = 1 then Fin 0 else np_var 1 a);
            v2 = (if length b = 1 then Fin 0 else np_var 1 b);
            svar = fdiv (fadd (fmul (Fin (n1 - 1)) v1) (fmul (Fin (n2 - 1)) v2))
                        (Fin (ttest_ind_df a b));
            denom = fsqrt (fmul svar (Fin (1 / n1 + 1 / n2)));
            d = fsub (np_mean a) (np_mean b)
        in fdiv d denom)"

text \<open>
  The two-sided p-value of a statistic \<open>t\<close>: twice the survival function of Student's t
  distribution at \<open>|t|\<close>. The survival function \<open>sf x df\<close> is the library's and is a
  parameter of the model; at an infinite statistic it is \<open>0\<close>, and NaN gives NaN.
\<close>

fun two_sided_p :: "(real \<Rightarrow> real \<Rightarrow> real) \<Rightarrow> real \<Rightarrow> fval \<Rightarrow> fval" where
  "two_sided_p sf df (Fin t) = Fin (2 * sf \<bar>t\<bar> df)"
| "two_sided_p sf df PInf = Fin 0"
| "two_sided_p sf df NInf = Fin 0"
| "two_sided_p sf df NaN = NaN"

definition ttest_ind :: "(real \<Rightarrow> real \<Rightarrow> real) \<Rightarrow> real list \<Rightarrow> real list \<Rightarrow> fval \<times> fval" where
  "ttest_ind sf a b =
     (ttest_ind_statistic a b, two_sided_p sf (ttest_ind_df a b) (ttest_ind_statistic a b))"

subsection \<open>analyze_metric\<close>

text \<open>The dictionary \<open>analyze_metric\<close> returns, one field per key.\<close>

record metric_result =
  group_a_mean :: fval
  group_b_mean :: fval
  difference :: fval
  p_value :: fval
  significant :: bool
  effect_size :: fval

definition analyze_metric ::
  "(real \<Rightarrow> real \<Rightarrow> real) \<Rightarrow> real list \<Rightarrow> real list \<Rightarrow> metric_result" where
  "analyze_metric sf group_a_data group_b_data =
     (let a_mean = np_mean group_a_data;
          b_mean = np_mean group_b_data;
          diff = fsub a_mean b_mean;
          (t_stat, p) = ttest_ind sf group_a_data group_b_data;
          pooled_std =
            fsqrt (fdiv (fadd (fmul (np_std group_a_data) (np_std group_a_data))
                              (fmul (np_std group_b_data) (np_std group_b_data)))
                        (Fin 2))
      in \<lparr>group_a_mean = a_mean,
          group_b_mean = b_mean,
          difference = diff,
          p_value = p,
          significant = flt p (Fin (5 / 100)),
          effect_size = fdiv diff pooled_std\<rparr>)"

subsection \<open>The statistics the specification names\<close>

text \<open>
  The textbook quantities on the reals, for samples on which they are defined: the mean,
  the sum of squared deviations, the population variance (divisor \<open>n\<close>) and the sample
  variance (divisor \<open>n - 1\<close>).
\<close>

definition mean :: "real list \<Rightarrow> real" where
  "mean xs = sum_list xs / real (length xs)"

definition sum_sq_dev :: "real list \<Rightarrow> real" where
  "sum_sq_dev xs = sum_list (map (\<lambda>x. (x - mean xs) * (x - mean xs)) xs)"

definition population_variance :: "real list \<Rightarrow> real" where
  "population_variance xs = sum_sq_dev xs / real (length xs)"

definition sample_variance :: "real list \<Rightarrow> real" where
  "sample_variance xs = sum_sq_dev xs / (real (length xs) - 1)"

text \<open>
  Student's two-sample statistic: the variance pooled over both samples, with
  \<open>n1 + n2 - 2\<close> degrees of freedom, gives the standard error.
\<close>

definition pooled_variance :: "real list \<Rightarrow> real list \<Rightarrow> real" where
  "pooled_variance a b =
     (sum_sq_dev a + sum_sq_dev b) / (real (length a) + real (length b) - 2)"

definition student_standard_error :: "real list \<Rightarrow> real list \<Rightarrow> real" where
  "student_standard_error a b =
     sqrt (pooled_variance a b * (1 / real (length a) + 1 / real (length b)))"

text \<open>
  Cohen's d: the difference of the means over the pooled standard deviation, the
  square root of the pooled variance.
\<close>

definition pooled_standard_deviation :: "real list \<Rightarrow> real list \<Rightarrow> real" where
  "pooled_standard_deviation a b = sqrt (pooled_variance a b)"

definition cohens_d :: "real list \<Rightarrow> real list \<Rightarrow> real" where
  "cohens_d a b = (mean a - mean b) / pooled_standard_deviation a b"

text \<open>
  The value of the variable \<open>pooled_std\<close> of \<open>analyze_metric\<close> on two non-empty samples,
  on the reals: the root of the mean of the two population variances, whatever the
  sizes of the samples.
\<close>

definition pooled_std :: "real list \<Rightarrow> real list \<Rightarrow> real" where
  "pooled_std a b = sqrt ((population_variance a + population_variance b) / 2)"

text \<open>
  Samples on which float64 computes the sums exactly and neither overflows nor
  underflows: whole numbers of magnitude at most \<open>10\<^sup>6\<close>, at most \<open>10\<^sup>6\<close> of them.
\<close>

definition bounded_integers :: "real list \<Rightarrow> bool" where
  "bounded_integers xs =
     (length xs \<le> 1000000 \<and> list_all (\<lambda>x. x \<in> \<int> \<and> \<bar>x\<bar> \<le> 1000000) xs)"

text \<open>
  Welch's two-sample t-test: each sample's variance enters the standard error with its
  own size, and the degrees of freedom are the Welch-Satterthwaite approximation.
\<close>

definition welch_statistic :: "real list \<Rightarrow> real list \<Rightarrow> real" where
  "welch_statistic a b =
     (mean a - mean b) /
       sqrt (sample_variance a / real (length a) + sample_variance b / real (length b))"

definition welch_df :: "real list \<Rightarrow> real list \<Rightarrow> real" where
  "welch_df a b =
     (sample_variance a / real (length a) + sample_variance b / real (length b))\<^sup>2 /
       ((sample_variance a / real (length a))\<^sup>2 / (real (length a) - 1) +
        (sample_variance b / real (length b))\<^sup>2 / (real (length b) - 1))"

text \<open>A p-value is a probability.\<close>

fun in_unit_interval :: "fval \<Rightarrow> bool" where
  "in_unit_interval (Fin p) = (0 \<le> p \<and> p \<le> 1)"
| "in_unit_interval x = False"

text \<open>
  The survival function of Student's t distribution with two degrees of freedom,
  \<open>1/2 - x / (2 sqrt (x\<^sup>2 + 2))\<close>: the distribution of the statistic when both samples
  have two observations.
\<close>

definition t2_sf :: "real \<Rightarrow> real \<Rightarrow> real" where
  "t2_sf x df = 1 / 2 - x / (2 * sqrt (x\<^sup>2 + 2))"

section \<open>Properties of the API service\<close>

subsection \<open>The fetch functions never reject\<close>

text \<open>
  Claim C8. Each of \<open>getRecentAlerts\<close>, \<open>getPredictedAppointments\<close>,
  \<open>fetchAppointments\<close>, \<open>fetchFeedback\<close>, \<open>fetchService\<close> and \<open>fetchStaff\<close> settles
  as fulfilled whatever the runtime does (whether the request is rejected, or resolves
  to a response whose \<open>data\<close> cannot be read, or succeeds), and when its request is
  rejected it fulfils with the fallback value, the empty array.
\<close>

theorem fetch_functions_never_reject:
  "(\<exists>v. getRecentAlerts use_mock rt = Fulfilled v) \<and>
   (\<exists>v. getPredictedAppointments use_mock rt = Fulfilled v) \<and>
   (\<exists>v. fetchAppointments rt = Fulfilled v) \<and>
   (\<exists>v. fetchFeedback rt = Fulfilled v) \<and>
   (\<exists>v. fetchService rt = Fulfilled v) \<and>
   (\<exists>v. fetchStaff rt = Fulfilled v) \<and>
   (\<not> use_mock \<and> http_get rt DashboardApi ''/alerts/recent'' = Rejected e \<longrightarrow>
      getRecentAlerts use_mock rt = Fulfilled (JArr [])) \<and>
   (\<not> use_mock \<and> http_get rt DashboardApi ''/appointments/predicted'' = Rejected e \<longrightarrow>
      getPredictedAppointments use_mock rt = Fulfilled (JArr [])) \<and>
   (http_get rt RealTimeApi ''/appointments'' = Rejected e \<longrightarrow>
      fetchAppointments rt = Fulfilled (JArr [])) \<and>
   (http_get rt RealTimeApi ''/feedback'' = Rejected e \<longrightarrow>
      fetchFeedback rt = Fulfilled (JArr [])) \<and>
   (http_get rt RealTimeApi ''/service'' = Rejected e \<longrightarrow>
      fetchService rt = Fulfilled (JArr [])) \<and>
   (http_get rt RealTimeApi ''/staff'' = Rejected e \<longrightarrow>
      fetchStaff rt = Fulfilled (JArr []))"
  by (simp add: getRecentAlerts_def getPredictedAppointments_def fetchAppointments_def
      fetchFeedback_def fetchService_def fetchStaff_def response_data_def
      split: sum.split settled.split)

text \<open>With the mock data off and every request failing with a network error, all six fall back.\<close>

theorem fetch_functions_never_reject_witness:
  "getRecentAlerts False (runtime_of (Rejected (RequestError (JStr ''Network Error''))))
     = Fulfilled (JArr []) \<and>
   getPredictedAppointments False (runtime_of (Rejected (RequestError (JStr ''Network Error''))))
     = Fulfilled (JArr []) \<and>
   fetchAppointments (runtime_of (Rejected (RequestError (JStr ''Network Error''))))
     = Fulfilled (JArr []) \<and>
   fetchFeedback (runtime_of (Rejected (RequestError (JStr ''Network Error''))))
     = Fulfilled (JArr []) \<and>
   fetchService (runtime_of (Rejected (RequestError (JStr ''Network Error''))))
     = Fulfilled (JArr []) \<and>
   fetchStaff (runtime_of (Rejected (RequestError (JStr ''Network Error''))))
     = Fulfilled (JArr [])"
  using fetch_functions_never_reject
    [where use_mock = False
       and rt = "runtime_of (Rejected (RequestError (JStr ''Network Error'')))"
       and e = "RequestError (JStr ''Network Error'')"]
  by (simp add: runtime_of_def)

text \<open>
  The original functions are outside the claim: with the mock data off, a failure of
  the request of \<open>getABTestingData\<close> rejects its promise.
\<close>

lemma getABTestingData_rejects:
  "http_get rt Api ''/abtesting'' = Rejected e \<Longrightarrow> getABTestingData False rt = Rejected e"
  by (simp add: getABTestingData_def response_data_def)

subsection \<open>The mocked A/B testing result\<close>

text \<open>
  Claim C9. With the mock data on, as the module sets it, \<open>getABTestingResults\<close>
  fulfils with exactly two variants; each variant's show-up rate and no-show rate sum
  to one; both carry the p-value 0.032; exactly one variant, the first, has the result
  \<open>Winner\<close>, and its show-up rate is strictly higher than the other's; it is the variant
  the A/B testing page finds and names.
\<close>

theorem getABTestingResults_mock_variants:
  "length (variants (getABTestingResults USE_MOCK_DATA rt)) = 2 \<and>
   list_all (\<lambda>v. rate_sum v = Some 1) (variants (getABTestingResults USE_MOCK_DATA rt)) \<and>
   num_field ''p_value'' (variants (getABTestingResults USE_MOCK_DATA rt) ! 0)
     = Some (32 / 1000) \<and>
   num_field ''p_value'' (variants (getABTestingResults USE_MOCK_DATA rt) ! 1)
     = Some (32 / 1000) \<and>
   filter is_winner (variants (getABTestingResults USE_MOCK_DATA rt)) =
     [variants (getABTestingResults USE_MOCK_DATA rt) ! 0] \<and>
   higher_show_up_rate (variants (getABTestingResults USE_MOCK_DATA rt) ! 0)
     (variants (getABTestingResults USE_MOCK_DATA rt) ! 1) \<and>
   winner_name (getABTestingResults USE_MOCK_DATA rt) = JStr ''SMS Reminders'' \<and>
   read_field ''name'' (variants (getABTestingResults USE_MOCK_DATA rt) ! 0)
     = JStr ''SMS Reminders''"
  by (simp add: getABTestingResults_def USE_MOCK_DATA_def ab_testing_mock_def variants_def
      num_field_def read_field_def is_winner_def winner_name_def rate_sum_def
      higher_show_up_rate_def)

subsection \<open>Checking for updates\<close>

text \<open>
  Claim C10, as the specification states it, fails. A first successful call that fetches
  the timestamp \<open>null\<close> returns false and leaves \<open>null\<close> stored; the next successful
  call fetches a timestamp that differs from the stored one and still returns false.
  And after \<open>getLastUpdated\<close> has stored a timestamp (the refresh button calls it when
  it mounts), the first call of \<open>checkForUpdates\<close> returns true when the timestamp has
  changed.
\<close>

theorem checkForUpdates_claim_counterexample:
  "checkForUpdates (runtime_of (last_updated_response JNull)) lastUpdateTimestamp_init
     = (Fulfilled False, JNull) \<and>
   strict_not_equal (JStr ''2025-06-26 18:18:32'') JNull \<and>
   checkForUpdates (runtime_of (last_updated_response (JStr ''2025-06-26 18:18:32''))) JNull
     = (Fulfilled False, JStr ''2025-06-26 18:18:32'') \<and>
   snd (getLastUpdated (runtime_of (last_updated_response (JStr ''2025-06-26 18:18:32'')))
          lastUpdateTimestamp_init)
     = JStr ''2025-06-26 18:18:32'' \<and>
   checkForUpdates (runtime_of (last_updated_response (JStr ''2025-06-27 09:00:00'')))
       (JStr ''2025-06-26 18:18:32'')
     = (Fulfilled True, JStr ''2025-06-27 09:00:00'')"
  by (simp add: checkForUpdates_def getLastUpdated_def runtime_of_def
      last_updated_response_def response_data_def lastUpdateTimestamp_init_def)

text \<open>
  Claim C10, amended. When the request fails or the response cannot be read,
  \<open>checkForUpdates\<close> returns false and leaves the stored timestamp unchanged. When a
  timestamp is fetched and the stored one is falsy (\<open>null\<close> as the module starts, or a
  falsy value fetched before), it returns false and stores the fetched timestamp. When
  the stored one is truthy (stored by an earlier call of \<open>checkForUpdates\<close> or of
  \<open>getLastUpdated\<close>), it returns true exactly when the fetched timestamp \<open>!==\<close> the
  stored one, storing the fetched timestamp in that case and leaving the stored one
  unchanged otherwise.
\<close>

theorem checkForUpdates_cases:
  "(response_data (http_get rt RealTimeApi ''/last_updated'') = Inl e \<longrightarrow>
      checkForUpdates rt stored = (Fulfilled False, stored)) \<and>
   (response_data (http_get rt RealTimeApi ''/last_updated'') = Inr d \<and>
    get_prop d ''timestamp'' = Inl e \<longrightarrow>
      checkForUpdates rt stored = (Fulfilled False, stored)) \<and>
   (response_data (http_get rt RealTimeApi ''/last_updated'') = Inr d \<and>
    get_prop d ''timestamp'' = Inr new \<and> \<not> truthy stored \<longrightarrow>
      checkForUpdates rt stored = (Fulfilled False, new)) \<and>
   (response_data (http_get rt RealTimeApi ''/last_updated'') = Inr d \<and>
    get_prop d ''timestamp'' = Inr new \<and> truthy stored \<longrightarrow>
      checkForUpdates rt stored =
        (Fulfilled (strict_not_equal new stored),
         if strict_not_equal new stored then new else stored))"
  by (simp add: checkForUpdates_def)

text \<open>
  A failed request, a response without data, a first fetch, a changed timestamp and an
  unchanged one.
\<close>

theorem checkForUpdates_cases_witness:
  "checkForUpdates (runtime_of (Rejected (RequestError (JStr ''timeout'')))) (JStr ''t0'')
     = (Fulfilled False, JStr ''t0'') \<and>
   checkForUpdates (runtime_of (Fulfilled (JObj [(''data'', JNull)]))) (JStr ''t0'')
     = (Fulfilled False, JStr ''t0'') \<and>
   checkForUpdates (runtime_of (last_updated_response (JStr ''t1''))) JNull
     = (Fulfilled False, JStr ''t1'') \<and>
   checkForUpdates (runtime_of (last_updated_response (JStr ''t1''))) (JStr ''t0'')
     = (Fulfilled True, JStr ''t1'') \<and>
   checkForUpdates (runtime_of (last_updated_response (JStr ''t1''))) (JStr ''t1'')
     = (Fulfilled False, JStr ''t1'')"
  using
    checkForUpdates_cases
      [where rt = "runtime_of (Rejected (RequestError (JStr ''timeout'')))"
         and e = "RequestError (JStr ''timeout'')" and stored = "JStr ''t0''"]
    checkForUpdates_cases
      [where rt = "runtime_of (Fulfilled (JObj [(''data'', JNull)]))"
         and d = JNull and e = TypeError and stored = "JStr ''t0''"]
    checkForUpdates_cases
      [where rt = "runtime_of (last_updated_response (JStr ''t1''))"
         and d = "JObj [(''timestamp'', JStr ''t1''), (''formatted'', JStr ''now'')]"
         and new = "JStr ''t1''" and stored = JNull]
    checkForUpdates_cases
      [where rt = "runtime_of (last_updated_response (JStr ''t1''))"
         and d = "JObj [(''timestamp'', JStr ''t1''), (''formatted'', JStr ''now'')]"
         and new = "JStr ''t1''" and stored = "JStr ''t0''"]
    checkForUpdates_cases
      [where rt = "runtime_of (last_updated_response (JStr ''t1''))"
         and d = "JObj [(''timestamp'', JStr ''t1''), (''formatted'', JStr ''now'')]"
         and new = "JStr ''t1''" and stored = "JStr ''t1''"]
  by (simp add: runtime_of_def last_updated_response_def response_data_def)

section \<open>Properties of the statistical comparison\<close>

subsection \<open>Arithmetic on floating-point values\<close>

lemma fadd_commute: "fadd x y = fadd y x"
  by (cases x; cases y) simp_all

lemma fneg_fadd: "fneg (fadd x y) = fadd (fneg x) (fneg y)"
  by (cases x; cases y) simp_all

lemma fneg_fneg: "fneg (fneg x) = x"
  by (cases x) simp_all

lemma fsub_swap: "fsub y x = fneg (fsub x y)"
  by (simp add: fsub_def fneg_fadd fneg_fneg fadd_commute)

lemma fdiv_fneg: "fdiv (fneg x) y = fneg (fdiv x y)"
  by (cases x; cases y) simp_all

lemma two_sided_p_fneg: "two_sided_p sf df (fneg t) = two_sided_p sf df t"
  by (cases t) simp_all

subsection \<open>The numpy functions on samples where the statistics are defined\<close>

lemma np_mean_Fin: "xs \<noteq> [] \<Longrightarrow> np_mean xs = Fin (mean xs)"
  by (simp add: np_mean_def mean_def)

lemma np_var_Fin:
  "ddof < length xs \<Longrightarrow> np_var ddof xs = Fin (sum_sq_dev xs / real (length xs - ddof))"
  by (cases "xs = []") (simp_all add: np_var_def np_mean_Fin sum_sq_dev_def)

lemma sum_list_squares_nonneg: "0 \<le> sum_list (map (\<lambda>x. (x - m) * (x - m)) (xs :: real list))"
  by (induction xs) simp_all

lemma sum_sq_dev_nonneg: "0 \<le> sum_sq_dev xs"
  by (simp add: sum_sq_dev_def sum_list_squares_nonneg)

lemma population_variance_nonneg: "0 \<le> population_variance xs"
  by (simp add: population_variance_def sum_sq_dev_nonneg)

lemma sum_sq_dev_zero_iff:
  "xs \<noteq> [] \<Longrightarrow> sum_sq_dev xs = 0 \<longleftrightarrow> population_variance xs = 0"
  by (simp add: population_variance_def)

lemma np_std_Fin: "xs \<noteq> [] \<Longrightarrow> np_std xs = Fin (sqrt (population_variance xs))"
  using population_variance_nonneg [of xs]
  by (simp add: np_std_def np_var_Fin population_variance_def)

text \<open>A single observation has no deviation from its mean.\<close>

lemma sum_sq_dev_single: "length xs = Suc 0 \<Longrightarrow> sum_sq_dev xs = 0"
  by (cases xs) (simp_all add: sum_sq_dev_def mean_def)

subsection \<open>The t-test's statistic\<close>

text \<open>
  The variance that enters the pooled variance, times its weight \<open>n - 1\<close>, is the sum of
  the squared deviations, also for a single observation.
\<close>

lemma weighted_variance:
  assumes "xs \<noteq> []"
  shows "fmul (Fin (real (length xs) - 1)) (if length xs = 1 then Fin 0 else np_var 1 xs)
           = Fin (sum_sq_dev xs)"
proof (cases "length xs = Suc 0")
  case True
  then show ?thesis by (simp add: sum_sq_dev_single)
next
  case False
  have "length xs \<noteq> 0" using assms by simp
  with False have len: "2 \<le> length xs" by linarith
  then have "np_var (Suc 0) xs = Fin (sum_sq_dev xs / (real (length xs) - 1))"
    by (simp add: np_var_Fin of_nat_diff)
  moreover have "real (length xs) - 1 \<noteq> 0" using len by simp
  ultimately show ?thesis using False by simp
qed

lemma fdiv_NaN_right: "fdiv x NaN = NaN"
  by (cases x) simp_all

lemma ttest_ind_statistic_single_each:
  "length a = 1 \<Longrightarrow> length b = 1 \<Longrightarrow> ttest_ind_statistic a b = NaN"
  by (auto simp: ttest_ind_statistic_def ttest_ind_df_def Let_def fdiv_NaN_right)

lemma ttest_ind_statistic_empty: "a = [] \<or> b = [] \<Longrightarrow> ttest_ind_statistic a b = NaN"
  by (auto simp: ttest_ind_statistic_def)

lemma ttest_ind_statistic_Fin:
  assumes "a \<noteq> []" "b \<noteq> []" "3 \<le> length a + length b"
  shows "ttest_ind_statistic a b = fdiv (Fin (mean a - mean b)) (Fin (student_standard_error a b))"
proof -
  have df: "0 < real (length a) + real (length b) - 2" using assms(3) by linarith
  have pv: "0 \<le> pooled_variance a b"
    using df sum_sq_dev_nonneg [of a] sum_sq_dev_nonneg [of b]
    by (simp add: pooled_variance_def)
  have arg: "0 \<le> pooled_variance a b * (1 / real (length a) + 1 / real (length b))"
    using pv by simp
  have svar: "fdiv (Fin (sum_sq_dev a + sum_sq_dev b)) (Fin (real (length a) + real (length b) - 2))
      = Fin (pooled_variance a b)"
    using df by (simp add: pooled_variance_def)
  have "ttest_ind_statistic a b =
      fdiv (fsub (np_mean a) (np_mean b))
        (fsqrt (fmul (fdiv (fadd (Fin (sum_sq_dev a)) (Fin (sum_sq_dev b)))
                           (Fin (real (length a) + real (length b) - 2)))
                     (Fin (1 / real (length a) + 1 / real (length b)))))"
    unfolding ttest_ind_statistic_def Let_def ttest_ind_df_def
      weighted_variance [OF assms(1)] weighted_variance [OF assms(2)]
    using assms(1,2) by simp
  also have "\<dots> = fdiv (Fin (mean a - mean b)) (Fin (student_standard_error a b))"
    using assms(1,2) arg svar
    by (simp add: np_mean_Fin fsub_def student_standard_error_def del: fdiv.simps)
  finally show ?thesis .
qed

lemma student_standard_error_zero_iff:
  assumes "a \<noteq> []" "b \<noteq> []" "3 \<le> length a + length b"
  shows "student_standard_error a b = 0 \<longleftrightarrow>
         population_variance a = 0 \<and> population_variance b = 0"
proof -
  have df: "0 < real (length a) + real (length b) - 2" using assms(3) by linarith
  have inv: "0 < 1 / real (length a) + 1 / real (length b)"
    using assms(1,2) by (simp add: add_pos_pos)
  have "student_standard_error a b = 0 \<longleftrightarrow> sum_sq_dev a + sum_sq_dev b = 0"
    using df inv by (auto simp: student_standard_error_def pooled_variance_def)
  also have "\<dots> \<longleftrightarrow> sum_sq_dev a = 0 \<and> sum_sq_dev b = 0"
    using sum_sq_dev_nonneg [of a] sum_sq_dev_nonneg [of b] by linarith
  finally show ?thesis using assms(1,2) by (simp add: sum_sq_dev_zero_iff)
qed

lemma ttest_ind_statistic_swap: "ttest_ind_statistic b a = fneg (ttest_ind_statistic a b)"
  by (auto simp: ttest_ind_statistic_def ttest_ind_df_def Let_def fadd_commute add.commute
      fsub_swap [of "np_mean b" "np_mean a"] fdiv_fneg)

lemma ttest_ind_df_swap: "ttest_ind_df b a = ttest_ind_df a b"
  by (simp add: ttest_ind_df_def)

subsection \<open>The fields of the result\<close>

lemma p_value_analyze_metric:
  "p_value (analyze_metric sf a b) = two_sided_p sf (ttest_ind_df a b) (ttest_ind_statistic a b)"
  by (simp add: analyze_metric_def ttest_ind_def Let_def)

lemma significant_analyze_metric:
  "significant (analyze_metric sf a b) = flt (p_value (analyze_metric sf a b)) (Fin (5 / 100))"
  by (simp add: analyze_metric_def ttest_ind_def Let_def)

lemma pooled_std_Fin:
  assumes "a \<noteq> []" "b \<noteq> []"
  shows "fsqrt (fdiv (fadd (fmul (np_std a) (np_std a)) (fmul (np_std b) (np_std b))) (Fin 2))
      = Fin (pooled_std a b)"
  using assms population_variance_nonneg [of a] population_variance_nonneg [of b]
  by (simp add: np_std_Fin pooled_std_def)

lemma effect_size_analyze_metric:
  assumes "a \<noteq> []" "b \<noteq> []"
  shows "effect_size (analyze_metric sf a b)
    = fdiv (Fin (mean a - mean b)) (Fin (pooled_std a b))"
  using assms
  by (simp add: analyze_metric_def ttest_ind_def Let_def pooled_std_Fin np_mean_Fin fsub_def
      del: fdiv.simps)

lemma pooled_std_zero_iff:
  "pooled_std a b = 0 \<longleftrightarrow> population_variance a = 0 \<and> population_variance b = 0"
  using population_variance_nonneg [of a] population_variance_nonneg [of b]
  by (auto simp: pooled_std_def)

subsection \<open>The survival function used in the examples\<close>

lemma t2_sf_range: "0 \<le> x \<Longrightarrow> 0 \<le> t2_sf x df \<and> t2_sf x df \<le> 1 / 2"
proof -
  assume x: "0 \<le> x"
  have pos: "0 < sqrt (x\<^sup>2 + 2)" by (simp add: add_nonneg_pos)
  have "sqrt (x\<^sup>2) \<le> sqrt (x\<^sup>2 + 2)" by (rule real_sqrt_le_mono) simp
  with x have le: "x \<le> sqrt (x\<^sup>2 + 2)" by simp
  have "x / (2 * sqrt (x\<^sup>2 + 2)) \<le> 1 / 2" using pos le by (simp add: field_simps)
  moreover have "0 \<le> x / (2 * sqrt (x\<^sup>2 + 2))" using x pos by simp
  ultimately show ?thesis by (simp add: t2_sf_def)
qed

text \<open>With two degrees of freedom a statistic beyond \<open>4.31\<close> is significant.\<close>

lemma t2_sf_significant: "0 \<le> x \<Longrightarrow> 722 < 39 * x\<^sup>2 \<Longrightarrow> 2 * t2_sf x df < 5 / 100"
proof -
  assume x: "0 \<le> x" and big: "722 < 39 * x\<^sup>2"
  have pos: "0 < sqrt (x\<^sup>2 + 2)" by (simp add: add_nonneg_pos)
  have "x\<^sup>2 + 2 < (20 * x / 19)\<^sup>2" using big by (simp add: power2_eq_square field_simps)
  moreover have "0 \<le> 20 * x / 19" using x by simp
  ultimately have "sqrt (x\<^sup>2 + 2) < 20 * x / 19" by (intro real_less_lsqrt)
  then have "19 * sqrt (x\<^sup>2 + 2) < 20 * x" by linarith
  then have "19 / 20 < x / sqrt (x\<^sup>2 + 2)" using pos by (simp add: field_simps)
  then show ?thesis using pos by (simp add: t2_sf_def field_simps)
qed

lemma in_unit_two_sided_p:
  assumes "\<forall>x df. 0 \<le> x \<longrightarrow> 0 \<le> sf x df \<and> sf x df \<le> 1 / 2"
  shows "two_sided_p sf df t = NaN \<or> in_unit_interval (two_sided_p sf df t)"
proof (cases t)
  case (Fin x)
  have "0 \<le> sf \<bar>x\<bar> df \<and> sf \<bar>x\<bar> df \<le> 1 / 2" using assms by simp
  then show ?thesis using Fin by simp
qed simp_all

lemma two_sided_p_NaN_iff: "two_sided_p sf df t = NaN \<longleftrightarrow> t = NaN"
  by (cases t) simp_all

lemmas eval_defs = analyze_metric_def np_mean_def np_std_def np_var_def ttest_ind_def
  ttest_ind_statistic_def ttest_ind_df_def fsub_def

subsection \<open>The p-value and the significance flag\<close>

text \<open>
  The t-test result of the dashboard's mock data is consistent with the rule: its
  p-value is a probability and its flag is \<open>pValue < 0.05\<close>.
\<close>

lemma tTestResults_mock_consistent:
  "num_field ''pValue'' (read_field ''tTestResults'' abTestingData_mock) = Some (32 / 1000) \<and>
   read_field ''significant'' (read_field ''tTestResults'' abTestingData_mock)
     = JBool (32 / 1000 < (5 / 100 :: real))"
  by (simp add: abTestingData_mock_def read_field_def num_field_def)

text \<open>
  Claim C1, as the specification states it, fails: two samples of two observations each
  are a valid input, and when all four observations are equal the statistic is \<open>0/0\<close>
  and the p-value returned is NaN, which is not in \<open>[0, 1]\<close>.
\<close>

theorem analyze_metric_p_value_nan_counterexample:
  "2 \<le> length [1, 1 :: real] \<and>
   p_value (analyze_metric t2_sf [1, 1] [1, 1]) = NaN \<and>
   \<not> in_unit_interval (p_value (analyze_metric t2_sf [1, 1] [1, 1]))"
  by (simp add: eval_defs Let_def)

text \<open>
  Claim C1, amended. On every input the flag \<open>significant\<close> equals \<open>p_value < 0.05\<close>,
  and, provided the library's survival function of the t distribution takes values in
  \<open>[0, 1/2]\<close> on non-negative arguments, the p-value is NaN or lies in \<open>[0, 1]\<close>. For
  samples of bounded integers with at least two observations each, the p-value lies in
  \<open>[0, 1]\<close> unless both samples have zero variance and the same mean, and in that case
  it is NaN.
\<close>

theorem analyze_metric_p_value_range:
  assumes "\<forall>x df. 0 \<le> x \<longrightarrow> 0 \<le> sf x df \<and> sf x df \<le> 1 / 2"
  shows "significant (analyze_metric sf a b)
           = flt (p_value (analyze_metric sf a b)) (Fin (5 / 100)) \<and>
         (p_value (analyze_metric sf a b) = NaN \<or>
          in_unit_interval (p_value (analyze_metric sf a b))) \<and>
         (bounded_integers a \<and> bounded_integers b \<and> 2 \<le> length a \<and> 2 \<le> length b \<and>
          \<not> (population_variance a = 0 \<and> population_variance b = 0 \<and> mean a = mean b) \<longrightarrow>
            in_unit_interval (p_value (analyze_metric sf a b))) \<and>
         (bounded_integers a \<and> bounded_integers b \<and> 2 \<le> length a \<and> 2 \<le> length b \<and>
          population_variance a = 0 \<and> population_variance b = 0 \<and> mean a = mean b \<longrightarrow>
            p_value (analyze_metric sf a b) = NaN)"
proof -
  have range: "p_value (analyze_metric sf a b) = NaN \<or>
      in_unit_interval (p_value (analyze_metric sf a b))"
    using in_unit_two_sided_p [OF assms] by (simp add: p_value_analyze_metric)
  have regular: "in_unit_interval (p_value (analyze_metric sf a b))"
    if h: "2 \<le> length a \<and> 2 \<le> length b \<and>
      \<not> (population_variance a = 0 \<and> population_variance b = 0 \<and> mean a = mean b)"
  proof -
    have ne: "a \<noteq> []" "b \<noteq> []" and len: "3 \<le> length a + length b" using h by auto
    have "ttest_ind_statistic a b \<noteq> NaN"
      using h student_standard_error_zero_iff [OF ne len]
      by (auto simp: ttest_ind_statistic_Fin [OF ne len])
    then have "p_value (analyze_metric sf a b) \<noteq> NaN"
      by (simp add: p_value_analyze_metric two_sided_p_NaN_iff)
    with range show ?thesis by simp
  qed
  have degenerate: "p_value (analyze_metric sf a b) = NaN"
    if h: "2 \<le> length a \<and> 2 \<le> length b \<and>
      population_variance a = 0 \<and> population_variance b = 0 \<and> mean a = mean b"
  proof -
    have ne: "a \<noteq> []" "b \<noteq> []" and len: "3 \<le> length a + length b" using h by auto
    have "student_standard_error a b = 0"
      using h student_standard_error_zero_iff [OF ne len] by simp
    then show ?thesis
      using h by (simp add: p_value_analyze_metric ttest_ind_statistic_Fin [OF ne len])
  qed
  show ?thesis
    using significant_analyze_metric [of sf a b] range regular degenerate by blast
qed

text \<open>
  Two samples of two observations with different values, under the t distribution with
  two degrees of freedom, and two samples whose four observations are equal.
\<close>

theorem analyze_metric_p_value_range_witness:
  "significant (analyze_metric t2_sf [1, 3] [2, 6])
     = flt (p_value (analyze_metric t2_sf [1, 3] [2, 6])) (Fin (5 / 100)) \<and>
   in_unit_interval (p_value (analyze_metric t2_sf [1, 3] [2, 6])) \<and>
   p_value (analyze_metric t2_sf [4, 4] [4, 4]) = NaN"
  using analyze_metric_p_value_range [of t2_sf "[1, 3]" "[2, 6]"]
    analyze_metric_p_value_range [of t2_sf "[4, 4]" "[4, 4]"] t2_sf_range
  by (simp add: bounded_integers_def population_variance_def sum_sq_dev_def mean_def)

subsection \<open>The test applied\<close>

text \<open>
  Claim C2. \<open>analyze_metric\<close> calls \<open>stats.ttest_ind\<close> without \<open>equal_var=False\<close>, which is
  Student's test on the pooled variance and not Welch's. On the samples \<open>[0, 2]\<close> and
  \<open>[0, 3, 6]\<close> (unequal sizes, unequal variances) the statistic and the degrees of
  freedom that enter the p-value are \<open>- 2 / sqrt (50 / 9)\<close> and \<open>3\<close>, where Welch's test
  has \<open>- 1\<close> and \<open>32 / 11\<close>.
\<close>

theorem ttest_ind_is_not_welch:
  "ttest_ind_statistic [0, 2] [0, 3, 6] = Fin (- (2 / sqrt (50 / 9))) \<and>
   ttest_ind_df [0, 2] [0, 3, 6] = 3 \<and>
   welch_statistic [0, 2] [0, 3, 6] = - 1 \<and>
   welch_df [0, 2] [0, 3, 6] = 32 / 11 \<and>
   ttest_ind_statistic [0, 2] [0, 3, 6] \<noteq> Fin (welch_statistic [0, 2] [0, 3, 6]) \<and>
   ttest_ind_df [0, 2] [0, 3, 6] \<noteq> welch_df [0, 2] [0, 3, 6]"
proof -
  have ne: "sqrt (50 / 9) \<noteq> 2"
  proof
    assume "sqrt (50 / 9) = 2"
    then have "(sqrt (50 / 9))\<^sup>2 = 2\<^sup>2" by (rule arg_cong)
    then show False by simp
  qed
  have w: "welch_statistic [0, 2] [0, 3, 6] = - 1"
    by (simp add: welch_statistic_def mean_def sample_variance_def sum_sq_dev_def)
  have t: "ttest_ind_statistic [0, 2] [0, 3, 6] = Fin (- (2 / sqrt (50 / 9)))"
    by (simp add: eval_defs)
  have df: "ttest_ind_df [0, 2] [0, 3, 6] = 3" by (simp add: ttest_ind_df_def)
  have wdf: "welch_df [0, 2] [0, 3, 6] = 32 / 11"
    by (simp add: welch_df_def mean_def sample_variance_def sum_sq_dev_def power2_eq_square)
  have "Fin (- (2 / sqrt (50 / 9))) \<noteq> Fin (- 1)"
    using ne by (simp add: field_simps)
  then show ?thesis by (simp add: w t df wdf)
qed

subsection \<open>Samples of fewer than two observations\<close>

text \<open>
  Claim C3, as the specification states it, fails: \<open>analyze_metric\<close> checks no sample
  size and raises nothing. With one observation in each sample it returns a result whose
  p-value is NaN and whose effect size is an infinity; with one observation against
  three it returns a result that is even significant.
\<close>

theorem analyze_metric_single_observation_counterexample:
  "analyze_metric t2_sf [1] [2] =
     \<lparr>group_a_mean = Fin 1, group_b_mean = Fin 2, difference = Fin (- 1),
      p_value = NaN, significant = False, effect_size = NInf\<rparr> \<and>
   group_a_mean (analyze_metric t2_sf [100] [1, 2, 3]) = Fin 100 \<and>
   group_b_mean (analyze_metric t2_sf [100] [1, 2, 3]) = Fin 2 \<and>
   difference (analyze_metric t2_sf [100] [1, 2, 3]) = Fin 98 \<and>
   in_unit_interval (p_value (analyze_metric t2_sf [100] [1, 2, 3])) \<and>
   significant (analyze_metric t2_sf [100] [1, 2, 3])"
proof -
  have one: "analyze_metric t2_sf [1] [2] =
     \<lparr>group_a_mean = Fin 1, group_b_mean = Fin 2, difference = Fin (- 1),
      p_value = NaN, significant = False, effect_size = NInf\<rparr>"
    by (simp add: eval_defs)
  have t: "ttest_ind_statistic [100] [1, 2, 3] = Fin (98 / sqrt (4 / 3))"
    by (simp add: eval_defs)
  have p: "p_value (analyze_metric t2_sf [100] [1, 2, 3]) = Fin (2 * t2_sf (98 / sqrt (4 / 3)) 2)"
    by (simp add: p_value_analyze_metric t ttest_ind_df_def)
  have sq: "(98 / sqrt (4 / 3))\<^sup>2 = 7203" by (simp add: power_divide)
  have sig: "2 * t2_sf (98 / sqrt (4 / 3)) 2 < 5 / 100"
    by (rule t2_sf_significant) (simp_all add: sq)
  have rng: "0 \<le> t2_sf (98 / sqrt (4 / 3)) 2 \<and> t2_sf (98 / sqrt (4 / 3)) 2 \<le> 1 / 2"
    by (rule t2_sf_range) simp
  have means: "group_a_mean (analyze_metric t2_sf [100] [1, 2, 3]) = Fin 100 \<and>
      group_b_mean (analyze_metric t2_sf [100] [1, 2, 3]) = Fin 2 \<and>
      difference (analyze_metric t2_sf [100] [1, 2, 3]) = Fin 98"
    by (simp add: analyze_metric_def ttest_ind_def Let_def np_mean_def fsub_def)
  have "in_unit_interval (p_value (analyze_metric t2_sf [100] [1, 2, 3]))"
    using rng by (simp add: p)
  moreover have "significant (analyze_metric t2_sf [100] [1, 2, 3])"
    using sig by (simp add: significant_analyze_metric p)
  ultimately show ?thesis using one means by simp
qed

text \<open>
  Claim C3, amended. \<open>analyze_metric\<close> checks no sample size and never fails with an
  error: it returns a result for samples of every size. With an empty sample, or with
  one observation in each sample, the p-value of the result is NaN and \<open>significant\<close> is
  false. With one observation in one sample and two or more in the other (bounded
  integers, not all of one value) the test is carried out and the p-value is a number.
  For non-empty samples of bounded integers, so also when both have two observations
  or more, the result carries two finite means and their finite difference.
\<close>

theorem analyze_metric_small_samples:
  "((a = [] \<or> b = []) \<or> (length a = 1 \<and> length b = 1) \<longrightarrow>
      p_value (analyze_metric sf a b) = NaN \<and> \<not> significant (analyze_metric sf a b)) \<and>
   (bounded_integers a \<and> bounded_integers b \<and>
    ((length a = 1 \<and> 2 \<le> length b) \<or> (2 \<le> length a \<and> length b = 1)) \<and>
    (population_variance a \<noteq> 0 \<or> population_variance b \<noteq> 0) \<longrightarrow>
      is_finite (p_value (analyze_metric sf a b))) \<and>
   (bounded_integers a \<and> bounded_integers b \<and> a \<noteq> [] \<and> b \<noteq> [] \<longrightarrow>
      is_finite (group_a_mean (analyze_metric sf a b)) \<and>
      is_finite (group_b_mean (analyze_metric sf a b)) \<and>
      is_finite (difference (analyze_metric sf a b)))"
proof -
  have short: "p_value (analyze_metric sf a b) = NaN \<and> \<not> significant (analyze_metric sf a b)"
    if "(a = [] \<or> b = []) \<or> (length a = 1 \<and> length b = 1)"
  proof -
    have "ttest_ind_statistic a b = NaN"
      using that ttest_ind_statistic_empty [of a b] ttest_ind_statistic_single_each [of a b]
      by blast
    then show ?thesis by (simp add: significant_analyze_metric p_value_analyze_metric)
  qed
  have single: "is_finite (p_value (analyze_metric sf a b))"
    if h: "((length a = 1 \<and> 2 \<le> length b) \<or> (2 \<le> length a \<and> length b = 1)) \<and>
      (population_variance a \<noteq> 0 \<or> population_variance b \<noteq> 0)"
  proof -
    have ne: "a \<noteq> []" "b \<noteq> []" and len: "3 \<le> length a + length b" using h by auto
    have "student_standard_error a b \<noteq> 0"
      using h student_standard_error_zero_iff [OF ne len] by auto
    then show ?thesis
      by (simp add: p_value_analyze_metric ttest_ind_statistic_Fin [OF ne len])
  qed
  have means: "is_finite (group_a_mean (analyze_metric sf a b)) \<and>
      is_finite (group_b_mean (analyze_metric sf a b)) \<and>
      is_finite (difference (analyze_metric sf a b))"
    if "a \<noteq> [] \<and> b \<noteq> []"
    using that by (simp add: analyze_metric_def ttest_ind_def Let_def np_mean_Fin fsub_def)
  show ?thesis using short single means by blast
qed

text \<open>
  An empty sample, one observation in each sample, one observation against three, and
  two samples of two observations.
\<close>

theorem analyze_metric_small_samples_witness:
  "p_value (analyze_metric t2_sf [] [2, 3]) = NaN \<and>
   \<not> significant (analyze_metric t2_sf [] [2, 3]) \<and>
   p_value (analyze_metric t2_sf [7] [9]) = NaN \<and>
   \<not> significant (analyze_metric t2_sf [7] [9]) \<and>
   is_finite (p_value (analyze_metric t2_sf [100] [1, 2, 3])) \<and>
   is_finite (difference (analyze_metric t2_sf [1, 3] [2, 6]))"
  using analyze_metric_small_samples [of "[]" "[2, 3]" t2_sf]
    analyze_metric_small_samples [of "[7]" "[9]" t2_sf]
    analyze_metric_small_samples [of "[100]" "[1, 2, 3]" t2_sf]
    analyze_metric_small_samples [of "[1, 3]" "[2, 6]" t2_sf]
  by (simp add: bounded_integers_def population_variance_def sum_sq_dev_def mean_def)

subsection \<open>The effect size\<close>

text \<open>
  Claim C4. The code names its effect size Cohen's d, but divides the difference of the
  means by the root of the mean of the two variances that \<open>np.std\<close> gives (divisor
  \<open>n\<close>, sample sizes ignored), which is not the pooled standard deviation. On the samples
  \<open>[1, 3]\<close> and \<open>[2, 6]\<close> the field \<open>effect_size\<close> is \<open>- 2 / sqrt (5 / 2)\<close>, where Cohen's d
  is \<open>- 2 / sqrt 5\<close>.
\<close>

theorem effect_size_is_not_cohens_d:
  "effect_size (analyze_metric t2_sf [1, 3] [2, 6]) = Fin (- (2 / sqrt (5 / 2))) \<and>
   pooled_standard_deviation [1, 3] [2, 6] = sqrt 5 \<and>
   cohens_d [1, 3] [2, 6] = - (2 / sqrt 5) \<and>
   effect_size (analyze_metric t2_sf [1, 3] [2, 6]) \<noteq> Fin (cohens_d [1, 3] [2, 6])"
proof -
  have e: "effect_size (analyze_metric t2_sf [1, 3] [2, 6]) = Fin (- (2 / sqrt (5 / 2)))"
    by (simp add: effect_size_analyze_metric pooled_std_def population_variance_def
        sum_sq_dev_def mean_def)
  have s: "pooled_standard_deviation [1, 3] [2, 6] = sqrt 5"
    by (simp add: pooled_standard_deviation_def pooled_variance_def sum_sq_dev_def mean_def)
  have d: "cohens_d [1, 3] [2, 6] = - (2 / sqrt 5)"
    by (simp add: cohens_d_def s mean_def)
  have "sqrt (5 / 2) \<noteq> sqrt 5" by simp
  then have "- (2 / sqrt (5 / 2)) \<noteq> - (2 / sqrt 5)" by (simp add: field_simps)
  then show ?thesis by (simp add: e s d)
qed

subsection \<open>Swapping the groups\<close>

text \<open>
  Claim C5. For every pair of samples, the analysis of \<open>(B, A)\<close> has the negated
  difference and the negated effect size of the analysis of \<open>(A, B)\<close>, and the same
  p-value and significance flag (the negation of NaN being NaN).
\<close>

theorem analyze_metric_swap_groups:
  "difference (analyze_metric sf b a) = fneg (difference (analyze_metric sf a b)) \<and>
   effect_size (analyze_metric sf b a) = fneg (effect_size (analyze_metric sf a b)) \<and>
   p_value (analyze_metric sf b a) = p_value (analyze_metric sf a b) \<and>
   significant (analyze_metric sf b a) = significant (analyze_metric sf a b)"
  by (simp add: analyze_metric_def ttest_ind_def Let_def ttest_ind_statistic_swap [of a b]
      ttest_ind_df_swap [of a b] two_sided_p_fneg fsub_swap [of "np_mean b" "np_mean a"]
      fdiv_fneg fadd_commute [of "fmul (np_std b) (np_std b)"])

subsection \<open>Samples of zero variance\<close>

text \<open>
  Claim C6, as the specification states it, fails: the result has no annotation for a
  degenerate input, and nothing detects one. With two constant samples of different
  means the effect size is a division by zero and the result holds an infinity.
\<close>

theorem analyze_metric_zero_variance_counterexample:
  "population_variance [1, 1] = 0 \<and>
   effect_size (analyze_metric t2_sf [1, 1] [2, 2]) = NInf \<and>
   \<not> is_finite (effect_size (analyze_metric t2_sf [1, 1] [2, 2]))"
  by (simp add: eval_defs population_variance_def sum_sq_dev_def mean_def)

text \<open>
  Claim C6, amended. The result of \<open>analyze_metric\<close> has no annotation of degenerate
  inputs, and nothing detects them. For samples of bounded integers with at least two
  observations each, of which at least one has a variance that is not zero (so also
  when exactly one group has zero variance), every numeric field of the result is
  finite. When both of two non-empty samples of bounded integers have zero variance,
  the effect size is NaN or an infinity.
\<close>

theorem analyze_metric_degenerate_fields:
  "(bounded_integers a \<and> bounded_integers b \<and> 2 \<le> length a \<and> 2 \<le> length b \<and>
    (population_variance a \<noteq> 0 \<or> population_variance b \<noteq> 0) \<longrightarrow>
      is_finite (group_a_mean (analyze_metric sf a b)) \<and>
      is_finite (group_b_mean (analyze_metric sf a b)) \<and>
      is_finite (difference (analyze_metric sf a b)) \<and>
      is_finite (p_value (analyze_metric sf a b)) \<and>
      is_finite (effect_size (analyze_metric sf a b))) \<and>
   (bounded_integers a \<and> bounded_integers b \<and> a \<noteq> [] \<and> b \<noteq> [] \<and>
    population_variance a = 0 \<and> population_variance b = 0 \<longrightarrow>
      \<not> is_finite (effect_size (analyze_metric sf a b)))"
proof -
  have regular: "is_finite (group_a_mean (analyze_metric sf a b)) \<and>
      is_finite (group_b_mean (analyze_metric sf a b)) \<and>
      is_finite (difference (analyze_metric sf a b)) \<and>
      is_finite (p_value (analyze_metric sf a b)) \<and>
      is_finite (effect_size (analyze_metric sf a b))"
    if h: "2 \<le> length a \<and> 2 \<le> length b \<and>
      (population_variance a \<noteq> 0 \<or> population_variance b \<noteq> 0)"
  proof -
    have ne: "a \<noteq> []" "b \<noteq> []" and len: "3 \<le> length a + length b" using h by auto
    have se: "student_standard_error a b \<noteq> 0"
      using h student_standard_error_zero_iff [OF ne len] by auto
    have sd: "pooled_std a b \<noteq> 0"
      using h pooled_std_zero_iff [of a b] by auto
    have "is_finite (group_a_mean (analyze_metric sf a b))"
      using ne by (simp add: analyze_metric_def ttest_ind_def Let_def np_mean_Fin)
    moreover have "is_finite (group_b_mean (analyze_metric sf a b))"
      using ne by (simp add: analyze_metric_def ttest_ind_def Let_def np_mean_Fin)
    moreover have "is_finite (difference (analyze_metric sf a b))"
      using ne by (simp add: analyze_metric_def ttest_ind_def Let_def np_mean_Fin fsub_def)
    moreover have "is_finite (p_value (analyze_metric sf a b))"
      using se by (simp add: p_value_analyze_metric ttest_ind_statistic_Fin [OF ne len])
    moreover have "is_finite (effect_size (analyze_metric sf a b))"
      using sd by (simp add: effect_size_analyze_metric [OF ne])
    ultimately show ?thesis by simp
  qed
  have degenerate: "\<not> is_finite (effect_size (analyze_metric sf a b))"
    if h: "a \<noteq> [] \<and> b \<noteq> [] \<and> population_variance a = 0 \<and> population_variance b = 0"
  proof -
    have ne: "a \<noteq> []" "b \<noteq> []" using h by simp_all
    have "pooled_std a b = 0" using h pooled_std_zero_iff [of a b] by simp
    then show ?thesis by (simp add: effect_size_analyze_metric [OF ne])
  qed
  show ?thesis using regular degenerate by blast
qed

text \<open>One constant sample against a varying one, and two constant samples.\<close>

theorem analyze_metric_degenerate_fields_witness:
  "is_finite (p_value (analyze_metric t2_sf [5, 5] [2, 6])) \<and>
   is_finite (effect_size (analyze_metric t2_sf [5, 5] [2, 6])) \<and>
   \<not> is_finite (effect_size (analyze_metric t2_sf [3, 3] [3, 3]))"
  using analyze_metric_degenerate_fields [of "[5, 5]" "[2, 6]" t2_sf]
    analyze_metric_degenerate_fields [of "[3, 3]" "[3, 3]" t2_sf]
  by (simp add: bounded_integers_def population_variance_def sum_sq_dev_def mean_def)

end
